theory Spec2Isabelle
  imports Complex_Main "HOL-Library.Multiset" "HOL-Library.List_Lexorder" "HOL-Library.Char_ord"
begin

section \<open>Python strings\<close>

text \<open>
  Addresses, category names and email text are Python \<open>str\<close> values. They are modelled as
  lists of characters over ASCII: \<open>str.lower\<close> changes the letters \<open>A\<close>..\<open>Z\<close> only and
  \<open>str.strip\<close> removes the ASCII characters for which \<open>str.isspace\<close> holds
  (codes 9..13, 28..31 and 32).
\<close>

definition is_space :: "char \<Rightarrow> bool" where
  "is_space c = (c \<in> set [CHR 0x09, CHR 0x0A, CHR 0x0B, CHR 0x0C, CHR 0x0D,
                            CHR 0x1C, CHR 0x1D, CHR 0x1E, CHR 0x1F, CHR 0x20])"

definition strip :: "string \<Rightarrow> string" where
  "strip s = rev (dropWhile is_space (rev (dropWhile is_space s)))"

definition lower_char :: "char \<Rightarrow> char" where
  "lower_char c =
     (case map_of (zip ''ABCDEFGHIJKLMNOPQRSTUVWXYZ'' ''abcdefghijklmnopqrstuvwxyz'') c of
        None \<Rightarrow> c
      | Some l \<Rightarrow> l)"

definition lower :: "string \<Rightarrow> string" where
  "lower s = map lower_char s"

text \<open>
  \<open>s.split(sep)\<close> for a one-character separator: the pieces between the occurrences of
  \<open>sep\<close>; the result is never empty (\<open>''.split('@')\<close> is \<open>['']\<close>).
\<close>

fun split_acc :: "char \<Rightarrow> string \<Rightarrow> string \<Rightarrow> string list" where
  "split_acc sep cur [] = [cur]"
| "split_acc sep cur (c # cs) =
     (if c = sep then cur # split_acc sep [] cs else split_acc sep (cur @ [c]) cs)"

definition split :: "char \<Rightarrow> string \<Rightarrow> string list" where
  "split sep s = split_acc sep [] s"

text \<open>\<open>sep.join(items)\<close> for a list of strings.\<close>

fun join :: "string \<Rightarrow> string list \<Rightarrow> string" where
  "join sep [] = []"
| "join sep [x] = x"
| "join sep (x # y # ys) = x @ sep @ join sep (y # ys)"

section \<open>Configuration (src/config/settings.py)\<close>

text \<open>
  The process-wide \<open>settings\<close> object, as far as the modelled code reads it. The YAML file
  itself is not part of the sources, so its contents are a parameter. \<open>weights\<close> is the
  dict of category weights; the weights are Python integers (as in \<open>Secrecy: 10\<close>), for
  which \<open>round(n, 2)\<close> returns \<open>n\<close> itself. Fractional (floating-point) weights are outside
  this model.
\<close>

record settings =
  trusted_domains :: "string list"
  weights :: "string \<rightharpoonup> int"
  search_kwargs :: "string \<rightharpoonup> nat"

section \<open>Risk scorer (src/utils/risk_calculator.py)\<close>

text \<open>\<open>s.split('@')[-1].lower()\<close>: the text after the last \<open>@\<close>, or all of \<open>s\<close> without one.\<close>

definition address_domain :: "string \<Rightarrow> string" where
  "address_domain s = lower (last (split CHR ''@'' s))"

text \<open>
  The loop over \<open>settings.trusted_domains\<close> (lines 26-30): \<open>external_score\<close> starts at 0
  and the first domain that differs from the sender's or from the receiver's domain sets it
  to 1 and leaves the loop.
\<close>

fun external_score :: "string list \<Rightarrow> string \<Rightarrow> string \<Rightarrow> int" where
  "external_score [] sender_domain receiver_domain = 0"
| "external_score (domain # domains) sender_domain receiver_domain =
     (if sender_domain \<noteq> domain \<or> receiver_domain \<noteq> domain then 1
      else external_score domains sender_domain receiver_domain)"

text \<open>
  The loop over \<open>categories\<close> (lines 33-37), threading \<open>risk_score\<close>:
  \<open>settings.weights.get(cat.strip())\<close> is added when it is not \<open>None\<close>.
\<close>

fun add_category_weights :: "(string \<rightharpoonup> int) \<Rightarrow> string list \<Rightarrow> int \<Rightarrow> int" where
  "add_category_weights w [] risk_score = risk_score"
| "add_category_weights w (cat # cats) risk_score =
     (case w (strip cat) of
        None \<Rightarrow> add_category_weights w cats risk_score
      | Some category_weight \<Rightarrow> add_category_weights w cats (risk_score + category_weight))"

text \<open>\<open>round(n, 2)\<close> on a Python integer.\<close>

definition round2 :: "int \<Rightarrow> int" where
  "round2 n = n"

definition external_flag :: "settings \<Rightarrow> string \<Rightarrow> string \<Rightarrow> int" where
  "external_flag st sender receiver =
     external_score (trusted_domains st) (address_domain sender) (address_domain receiver)"

definition calculate_risk_score :: "settings \<Rightarrow> string list \<Rightarrow> string \<Rightarrow> string \<Rightarrow> int" where
  "calculate_risk_score st categories sender receiver =
     (let risk_score = 0;
          external = external_flag st sender receiver;
          risk_score = add_category_weights (weights st) categories risk_score;
          risk_score = risk_score + external
      in round2 risk_score)"

text \<open>
  One invocation as a step of the process: the call reads \<open>settings\<close> and assigns to local
  variables only, so the settings it leaves behind are the ones it found.
\<close>

definition score_call :: "string list \<times> string \<times> string \<Rightarrow> settings \<Rightarrow> int \<times> settings" where
  "score_call args st =
     (case args of (categories, sender, receiver) \<Rightarrow>
        (calculate_risk_score st categories sender receiver, st))"

text \<open>A sequence of invocations, one after the other; the scores in call order.\<close>

fun score_calls :: "(string list \<times> string \<times> string) list \<Rightarrow> settings \<Rightarrow> int list \<times> settings" where
  "score_calls [] st = ([], st)"
| "score_calls (args # rest) st =
     (case score_call args st of (v, st') \<Rightarrow>
        (case score_calls rest st' of (vs, st'') \<Rightarrow> (v # vs, st'')))"

text \<open>A configuration with two trusted domains and one weighted category.\<close>

definition two_domain_settings :: settings where
  "two_domain_settings =
     \<lparr>trusted_domains = [''x.com'', ''y.com''],
      weights = map_of [(''Secrecy'', 10)],
      search_kwargs = map_of [(''k'', 3)]\<rparr>"

section \<open>Exceptions and parsed JSON\<close>

text \<open>
  The exceptions the modelled code can raise. \<open>ExternalError\<close> stands for whatever a
  capability outside the sources raises: the retriever, the embedding model, the language
  model chain with its JSON parser, and \<open>pandas.read_csv\<close>.
\<close>

datatype error = AttributeError | TypeError | KeyError | IndexError | ExternalError string

text \<open>
  What \<open>JsonOutputParser\<close> hands back: any JSON value. An object is a Python dict, given
  by its items (keys distinct); numbers are the finite ones.
\<close>

datatype json =
    JNull
  | JBool bool
  | JNum rat
  | JStr string
  | JList "json list"
  | JObj "(string \<times> json) list"

text \<open>Python truth value (\<open>not v\<close> is its negation).\<close>

fun truthy :: "json \<Rightarrow> bool" where
  "truthy JNull = False"
| "truthy (JBool b) = b"
| "truthy (JNum n) = (n \<noteq> 0)"
| "truthy (JStr s) = (s \<noteq> [])"
| "truthy (JList xs) = (xs \<noteq> [])"
| "truthy (JObj items) = (items \<noteq> [])"

text \<open>\<open>d.get(key, default)\<close> on the items of a dict.\<close>

definition get_item :: "(string \<times> json) list \<Rightarrow> string \<Rightarrow> json \<Rightarrow> json" where
  "get_item items key dflt = (case map_of items key of None \<Rightarrow> dflt | Some v \<Rightarrow> v)"

text \<open>
  The items of a list as strings, for \<open>str.join\<close>: \<open>None\<close> when an item is not a \<open>str\<close>
  (\<open>join\<close> then raises \<open>TypeError\<close>).
\<close>

fun str_items :: "json list \<Rightarrow> string list option" where
  "str_items [] = Some []"
| "str_items (JStr s # rest) = (case str_items rest of None \<Rightarrow> None | Some ss \<Rightarrow> Some (s # ss))"
| "str_items (_ # rest) = None"

text \<open>
  \<open>v[0]\<close>: the first item of a list, the first character of a string; a dict parsed from
  JSON has string keys only, so the key \<open>0\<close> is missing; \<open>None\<close>, booleans and numbers are
  not subscriptable.
\<close>

fun first_item :: "json \<Rightarrow> error + json" where
  "first_item (JList (x # _)) = Inr x"
| "first_item (JList []) = Inl IndexError"
| "first_item (JStr (c # _)) = Inr (JStr [c])"
| "first_item (JStr []) = Inl IndexError"
| "first_item (JObj _) = Inl KeyError"
| "first_item _ = Inl TypeError"

section \<open>Documents and the vector store (src/vectorstore/vector_db.py)\<close>

text \<open>
  A langchain \<open>Document\<close> as \<open>create_document_from_row\<close> builds it: the body as
  \<open>page_content\<close> and a metadata dict whose values are strings (\<open>From\<close>, \<open>To\<close>, \<open>Subject\<close>,
  \<open>Classification\<close>) or a list of category names (\<open>Category\<close>). The dict is given by its
  items in a fixed key order, so that equal dicts are equal lists; two documents are equal
  (Python \<open>==\<close>) when content and metadata are.
\<close>

datatype meta_value = Text string | Names "string list"

record document =
  page_content :: string
  metadata :: "(string \<times> meta_value) list"

text \<open>
  \<open>_load_or_create\<close> (lines 18-33). The argument is what is on disk: \<open>None\<close> when
  \<open>persist_dir\<close> does not exist, else the outcome of \<open>FAISS.load_local\<close>. Without a
  persisted index the store is built by \<open>FAISS.from_texts(["initialization"], ...)\<close>: one
  document with that text and empty metadata.
\<close>

definition load_or_create :: "(error + document list) option \<Rightarrow> error + document list" where
  "load_or_create persisted =
     (case persisted of
        Some loaded \<Rightarrow> loaded
      | None \<Rightarrow> Inr [\<lparr>page_content = ''initialization'', metadata = []\<rparr>])"

text \<open>
  Modelled from the spec: \<open>FAISS.similarity_search\<close> belongs to a library outside the
  sources. Section 4.1: it returns up to \<open>k\<close> records whose embedded vectors are nearest to
  the embedding of the query, nearest first, fewer than \<open>k\<close> if the store holds fewer, and
  it fails when the capability behind it does. The embedding of the query and the distance
  of a stored document from a query vector are parameters.
  \<open>VectorStoreManager.similarity_search\<close> (lines 53-55) passes the result on as it is.
\<close>

definition similarity_search ::
  "(string \<Rightarrow> error + 'v) \<Rightarrow> ('v \<Rightarrow> document \<Rightarrow> 'r::linorder) \<Rightarrow> document list \<Rightarrow>
   string \<Rightarrow> nat \<Rightarrow> error + document list" where
  "similarity_search embed_query distance vectorstore query k =
     (case embed_query query of
        Inl e \<Rightarrow> Inl e
      | Inr v \<Rightarrow> Inr (take k (sort_key (distance v) vectorstore)))"

section \<open>Retrieval layer (src/rag/retriever.py)\<close>







section \<open>Classification engine (src/rag/classifier.py)\<close>

text \<open>
  One row of the input table (a \<open>pandas.Series\<close> with string fields) and the dict that
  \<open>classify_email\<close> returns; \<open>idx\<close> is the key that \<open>classify_batch\<close> adds.
\<close>

record email_row =
  From :: string
  To :: string
  Subject :: string
  Body :: string

record classification_result = email_row +
  Classification :: string
  Category :: string
  Risk_Score :: int
  Reason :: json
  Evidence :: json
  Confidence_Score :: json
  idx :: "nat option"

text \<open>
  Lines 63-70 on the value of \<open>result.get("Category", "Compliant")\<close>: first the test for
  \<open>"nan"\<close> or a false value, then the join of a list.
\<close>

definition normalize_category :: "json \<Rightarrow> error + json" where
  "normalize_category category =
     (let category = (if category = JStr ''nan'' \<or> \<not> truthy category then JStr ''Compliant''
                      else category)
      in case category of
           JList items \<Rightarrow>
             (case str_items items of
                None \<Rightarrow> Inl TypeError
              | Some names \<Rightarrow> Inr (JStr (join '', '' names)))
         | _ \<Rightarrow> Inr category)"

text \<open>Line 72.\<close>

definition classification_of :: "(string \<times> json) list \<Rightarrow> string" where
  "classification_of result =
     (if get_item result ''non_compliant'' JNull = JStr ''Yes'' then ''Non-Compliant''
      else ''Compliant'')"

text \<open>Line 89: \<open>result.get("evidence", [""])[0] if result.get("evidence") else ""\<close>.\<close>

definition evidence_of :: "(string \<times> json) list \<Rightarrow> error + json" where
  "evidence_of result =
     (if truthy (get_item result ''evidence'' JNull)
      then first_item (get_item result ''evidence'' (JList [JStr []]))
      else Inr (JStr []))"

text \<open>
  \<open>classify_email\<close> (lines 43-91). The retriever is a parameter, and so is the chain
  \<open>prompt | llm | parser\<close>: the prompt text is built from the row, the retrieved documents
  and the configured categories and only feeds the model, so the chain is taken as a
  function of the row and the documents that returns the parsed JSON or raises. A parsed
  value that is not a dict has no \<open>get\<close>; a category that is not a string after lines
  63-70 has no \<open>split\<close>.
\<close>

definition classify_email ::
  "settings \<Rightarrow> (string \<Rightarrow> error + document list) \<Rightarrow>
   (email_row \<Rightarrow> document list \<Rightarrow> error + json) \<Rightarrow> email_row \<Rightarrow>
   error + classification_result" where
  "classify_email st retriever chain row =
     (case retriever (Body row) of
        Inl e \<Rightarrow> Inl e
      | Inr similar_docs \<Rightarrow>
     (case chain row similar_docs of
        Inl e \<Rightarrow> Inl e
      | Inr (JObj result) \<Rightarrow>
         (case normalize_category (get_item result ''Category'' (JStr ''Compliant'')) of
            Inl e \<Rightarrow> Inl e
          | Inr (JStr category) \<Rightarrow>
             (let classification = classification_of result;
                  category_list = map strip (split CHR '','' category);
                  risk_score = calculate_risk_score st category_list (From row) (To row)
              in case evidence_of result of
                   Inl e \<Rightarrow> Inl e
                 | Inr evidence \<Rightarrow>
                     Inr \<lparr>From = From row, To = To row, Subject = Subject row, Body = Body row,
                          Classification = classification,
                          Category = category,
                          Risk_Score = risk_score,
                          Reason = get_item result ''reason'' (JStr []),
                          Evidence = evidence,
                          Confidence_Score = get_item result ''confidence_score'' (JStr []),
                          idx = None\<rparr>)
          | Inr _ \<Rightarrow> Inl AttributeError)
      | Inr _ \<Rightarrow> Inl AttributeError))"

text \<open>
  \<open>sorted(xs, key=key, reverse=True)\<close>: CPython reverses the list, sorts it stably by
  ascending key and reverses the result.
\<close>

definition sorted_reverse :: "('a \<Rightarrow> 'k::linorder) \<Rightarrow> 'a list \<Rightarrow> 'a list" where
  "sorted_reverse key xs = rev (sort_key key (rev xs))"

text \<open>
  The loop of \<open>classify_batch\<close> (lines 100-107) from row number \<open>i\<close> on, threading
  \<open>results\<close>: an exception of \<open>classify_email\<close> is caught and the row skipped. The
  retriever and the chain may answer differently from row to row, so they take the row
  number.
\<close>

fun classify_rows ::
  "settings \<Rightarrow> (nat \<Rightarrow> string \<Rightarrow> error + document list) \<Rightarrow>
   (nat \<Rightarrow> email_row \<Rightarrow> document list \<Rightarrow> error + json) \<Rightarrow> nat \<Rightarrow> email_row list \<Rightarrow>
   classification_result list \<Rightarrow> classification_result list" where
  "classify_rows st retriever chain i [] results = results"
| "classify_rows st retriever chain i (row # rows) results =
     (case classify_email st (retriever i) (chain i) row of
        Inr result \<Rightarrow>
          classify_rows st retriever chain (Suc i) rows (results @ [result\<lparr>idx := Some i\<rparr>])
      | Inl e \<Rightarrow> classify_rows st retriever chain (Suc i) rows results)"

text \<open>
  \<open>classify_batch\<close> (lines 93-114). \<open>pandas.read_csv\<close> is a parameter and runs outside
  the \<open>try\<close>, so its exception is the only one that leaves the function.
\<close>

definition classify_batch ::
  "settings \<Rightarrow> ('f \<Rightarrow> error + email_row list) \<Rightarrow> (nat \<Rightarrow> string \<Rightarrow> error + document list) \<Rightarrow>
   (nat \<Rightarrow> email_row \<Rightarrow> document list \<Rightarrow> error + json) \<Rightarrow> 'f \<Rightarrow>
   error + classification_result list" where
  "classify_batch st read_csv retriever chain file_obj =
     (case read_csv file_obj of
        Inl e \<Rightarrow> Inl e
      | Inr test_df \<Rightarrow>
          (let results = classify_rows st retriever chain 0 test_df [];
               non_compliant = filter (\<lambda>r. Classification r = ''Non-Compliant'') results;
               sorted_results = sorted_reverse Risk_Score non_compliant
           in Inr sorted_results))"

section \<open>Specification-side definitions\<close>

text \<open>
  The elements of \<open>xs\<close>, in their order, whose \<open>f\<close>-value is neither in \<open>seen\<close> nor the
  \<open>f\<close>-value of an earlier element of \<open>xs\<close>: the first element for each new value. With
  \<open>category_key\<close> this is "at most one record per distinct category key, in rank order";
  with the identity it is "each record not yet used, once".
\<close>

fun first_by :: "('a \<Rightarrow> 'b) \<Rightarrow> 'b set \<Rightarrow> 'a list \<Rightarrow> 'a list" where
  "first_by f seen [] = []"
| "first_by f seen (x # xs) =
     (if f x \<in> seen then first_by f seen xs else x # first_by f (insert (f x) seen) xs)"

text \<open>
  The per-email results of a batch in input order, numbering the rows from \<open>i\<close>: one
  result, with its row number as \<open>idx\<close>, for every row that \<open>classify_email\<close> classifies
  without raising.
\<close>

definition per_email_results ::
  "settings \<Rightarrow> (nat \<Rightarrow> string \<Rightarrow> error + document list) \<Rightarrow>
   (nat \<Rightarrow> email_row \<Rightarrow> document list \<Rightarrow> error + json) \<Rightarrow> nat \<Rightarrow> email_row list \<Rightarrow>
   classification_result list" where
  "per_email_results st retriever chain i rows =
     concat (map
       (\<lambda>(j, row). case classify_email st (retriever j) (chain j) row of
                      Inl e \<Rightarrow> []
                    | Inr result \<Rightarrow> [result\<lparr>idx := Some j\<rparr>])
       (enumerate i rows))"

section \<open>Example data\<close>

text \<open>A stored example with one category.\<close>

definition example_doc :: "string \<Rightarrow> string \<Rightarrow> document" where
  "example_doc body category = \<lparr>page_content = body, metadata = [(''Category'', Names [category])]\<rparr>"

text \<open>
  A configuration with one trusted domain, and a batch of five internal emails. The model
  answers the rows in turn: non-compliant with category \<open>A\<close>; non-compliant with the list
  \<open>[B]\<close>; a response that fails to parse; \<open>"yes"\<close> in lower case with category \<open>B\<close>;
  non-compliant with category \<open>B\<close>.
\<close>

definition example_settings :: settings where
  "example_settings =
     \<lparr>trusted_domains = [''x.com''],
      weights = map_of [(''A'', 3), (''B'', 9)],
      search_kwargs = map_of [(''k'', 3)]\<rparr>"

definition example_row :: "string \<Rightarrow> email_row" where
  "example_row body = \<lparr>From = ''a@x.com'', To = ''b@x.com'', Subject = ''s'', Body = body\<rparr>"

definition example_rows :: "email_row list" where
  "example_rows = [example_row ''m0'', example_row ''m1'', example_row ''m2'',
                   example_row ''m3'', example_row ''m4'']"

definition verdict :: "json \<Rightarrow> json \<Rightarrow> json" where
  "verdict flag category = JObj [(''non_compliant'', flag), (''Category'', category)]"

definition example_chain :: "nat \<Rightarrow> email_row \<Rightarrow> document list \<Rightarrow> error + json" where
  "example_chain i row similar_docs =
     (if i = 0 then Inr (verdict (JStr ''Yes'') (JStr ''A''))
      else if i = 1 then Inr (verdict (JStr ''Yes'') (JList [JStr ''B'']))
      else if i = 2 then Inl (ExternalError ''MalformedVerdict'')
      else if i = 3 then Inr (verdict (JStr ''yes'') (JStr ''B''))
      else Inr (verdict (JStr ''Yes'') (JStr ''B'')))"

definition no_documents :: "nat \<Rightarrow> string \<Rightarrow> error + document list" where
  "no_documents i query = Inr []"



text \<open>The fields of a result that the examples display.\<close>

definition summary :: "classification_result \<Rightarrow> nat option \<times> string \<times> string \<times> int" where
  "summary r = (idx r, Classification r, Category r, Risk_Score r)"

section \<open>Properties of the risk scorer\<close>

lemma split_acc_not_Nil: "split_acc sep cur s \<noteq> []"
  by (induction s arbitrary: cur) auto

lemma external_score_exists:
  "external_score ds sd rd = (if \<exists>d \<in> set ds. sd \<noteq> d \<or> rd \<noteq> d then 1 else 0)"
  by (induction ds) auto

lemma external_score_range: "external_score ds sd rd = 0 \<or> external_score ds sd rd = 1"
  by (simp add: external_score_exists)


lemma address_domain_a_x: "address_domain ''a@x.com'' = ''x.com''"
  by (simp add: address_domain_def split_def lower_def lower_char_def)

lemma address_domain_b_x: "address_domain ''b@x.com'' = ''x.com''"
  by (simp add: address_domain_def split_def lower_def lower_char_def)

lemma strip_Secrecy: "strip ''Secrecy'' = ''Secrecy''"
  by (simp add: strip_def is_space_def)

text \<open>
  C1. The claim: the external-communication flag is 1 exactly when every trusted domain
  differs from the sender's or the receiver's domain, so a sender and a receiver that share
  one trusted domain get no flag point even when other trusted domains are configured.
  The code: with the trusted domains \<open>x.com\<close> and \<open>y.com\<close>, an exchange inside \<open>x.com\<close>
  with the category \<open>Secrecy\<close> of weight 10 scores 11, not 10: the loop stops at the
  first trusted domain that differs, here \<open>y.com\<close>, and adds the flag point.
\<close>

theorem c1_shared_trusted_domain_flagged:
  "external_flag two_domain_settings ''a@x.com'' ''b@x.com'' = 1 \<and>
   calculate_risk_score two_domain_settings [''Secrecy''] ''a@x.com'' ''b@x.com'' = 11"
  by (simp add: calculate_risk_score_def external_flag_def two_domain_settings_def round2_def
      address_domain_a_x address_domain_b_x strip_Secrecy)



lemma score_call_settings: "snd (score_call args st) = st"
  by (simp add: score_call_def split: prod.splits)

lemma score_calls_settings: "snd (score_calls calls st) = st"
proof (induction calls arbitrary: st)
  case Nil
  show ?case by simp
next
  case (Cons args rest)
  obtain v st' where a: "score_call args st = (v, st')"
    by (cases "score_call args st")
  obtain vs st'' where b: "score_calls rest st' = (vs, st'')"
    by (cases "score_calls rest st'")
  from a score_call_settings [of args st] have "st' = st" by simp
  moreover from b Cons.IH [of st'] have "st'' = st'" by simp
  ultimately show ?case using a b by simp
qed

text \<open>
  C9. An invocation leaves the settings as it found them, and whatever invocations run in
  between, the same categories, sender and receiver under the same settings give the same
  score again.
\<close>

theorem c9_score_deterministic:
  "snd (score_call args st) = st \<and>
   fst (score_call args (snd (score_calls between (snd (score_call args st))))) =
     fst (score_call args st)"
  by (simp add: score_calls_settings score_call_settings)

section \<open>Properties of the vector store\<close>

text \<open>
  C2. The claim: a freshly created store with no persisted index and no records added
  returns zero records from every similarity search, the bootstrap placeholder being
  excluded. The code: the store created when \<open>persist_dir\<close> does not exist holds the
  document \<open>initialization\<close>, and \<open>similarity_search\<close> returns what the index returns
  without filtering, so every search with \<open>k \<ge> 1\<close> whose query can be embedded returns the
  placeholder.
\<close>

theorem c2_fresh_store_returns_placeholder:
  "load_or_create None = Inr [\<lparr>page_content = ''initialization'', metadata = []\<rparr>] \<and>
   similarity_search (\<lambda>q. Inr v) distance
     [\<lparr>page_content = ''initialization'', metadata = []\<rparr>] query (Suc k)
   = Inr [\<lparr>page_content = ''initialization'', metadata = []\<rparr>]"
  by (simp add: load_or_create_def similarity_search_def)

section \<open>Properties of the diverse selection\<close>


lemma first_by_subset: "set (first_by f S xs) \<subseteq> set xs"
  by (induction xs arbitrary: S) auto







lemma example_doc_eq: "example_doc b c = example_doc b' c' \<longleftrightarrow> b = b' \<and> c = c'"
  by (auto simp: example_doc_def)




section \<open>Properties of the classification engine\<close>

lemma classify_rows_eq:
  "classify_rows st retriever chain i rows results =
     results @ per_email_results st retriever chain i rows"
  by (induction rows arbitrary: i results)
     (auto simp: per_email_results_def split: sum.splits)

lemma classify_batch_eq:
  "read_csv file_obj = Inr test_df \<Longrightarrow>
   classify_batch st read_csv retriever chain file_obj =
     Inr (sorted_reverse Risk_Score
            (filter (\<lambda>r. Classification r = ''Non-Compliant'')
               (per_email_results st retriever chain 0 test_df)))"
  by (simp add: classify_batch_def classify_rows_eq)

lemma sorted_reverse_mset: "mset (sorted_reverse f xs) = mset xs"
  by (simp add: sorted_reverse_def)

lemma sorted_reverse_descending: "sorted_wrt (\<lambda>a b. f a \<ge> f b) (sorted_reverse f xs)"
proof -
  have "sorted (map f (sort_key f (rev xs)))" by (rule sorted_sort_key)
  then have "sorted_wrt (\<lambda>a b. f a \<le> f b) (sort_key f (rev xs))"
    by (simp add: sorted_map)
  then show ?thesis
    by (simp add: sorted_reverse_def sorted_wrt_rev)
qed

lemma sorted_reverse_stable:
  "filter (\<lambda>x. f x = s) (sorted_reverse f xs) = filter (\<lambda>x. f x = s) xs"
proof -
  have "filter (\<lambda>x. f x = s) (sort_key f (rev xs)) = filter (\<lambda>x. f x = s) (rev xs)"
    by (rule sort_key_stable)
  then show ?thesis
    by (simp add: sorted_reverse_def rev_filter [symmetric])
qed

lemma per_email_results_mem:
  "r \<in> set (per_email_results st retriever chain 0 rows) \<longleftrightarrow>
     (\<exists>j result. j < length rows \<and>
        classify_email st (retriever j) (chain j) (rows ! j) = Inr result \<and>
        r = result\<lparr>idx := Some j\<rparr>)"
proof
  assume "r \<in> set (per_email_results st retriever chain 0 rows)"
  then obtain p where p: "p \<in> set (enumerate 0 rows)"
    and r: "r \<in> set (case classify_email st (retriever (fst p)) (chain (fst p)) (snd p) of
                        Inl e \<Rightarrow> [] | Inr result \<Rightarrow> [result\<lparr>idx := Some (fst p)\<rparr>])"
    unfolding per_email_results_def set_concat set_map
    by (force simp: case_prod_beta)
  from p have j: "fst p < length rows" and row: "rows ! fst p = snd p"
    by (simp_all add: in_set_enumerate_eq)
  from r obtain result where
    "classify_email st (retriever (fst p)) (chain (fst p)) (snd p) = Inr result"
    "r = result\<lparr>idx := Some (fst p)\<rparr>"
    by (cases "classify_email st (retriever (fst p)) (chain (fst p)) (snd p)") auto
  with j row show "\<exists>j result. j < length rows \<and>
        classify_email st (retriever j) (chain j) (rows ! j) = Inr result \<and>
        r = result\<lparr>idx := Some j\<rparr>"
    by auto
next
  assume "\<exists>j result. j < length rows \<and>
        classify_email st (retriever j) (chain j) (rows ! j) = Inr result \<and>
        r = result\<lparr>idx := Some j\<rparr>"
  then obtain j result where j: "j < length rows"
    and c: "classify_email st (retriever j) (chain j) (rows ! j) = Inr result"
    and r: "r = result\<lparr>idx := Some j\<rparr>"
    by blast
  from j have "(j, rows ! j) \<in> set (enumerate 0 rows)"
    by (simp add: in_set_enumerate_eq)
  with c r show "r \<in> set (per_email_results st retriever chain 0 rows)"
    by (force simp: per_email_results_def)
qed

lemma classify_email_Inr:
  assumes "retriever (Body row) = Inr similar_docs"
    and "chain row similar_docs = Inr (JObj result)"
    and "classify_email st retriever chain row = Inr res"
  shows "normalize_category (get_item result ''Category'' (JStr ''Compliant'')) =
           Inr (JStr (Category res))"
    and "Classification res = classification_of result"
    and "Risk_Score res =
           calculate_risk_score st (map strip (split CHR '','' (Category res))) (From row) (To row)"
  using assms
  by (auto simp: classify_email_def Let_def split: sum.splits json.splits)



lemma classification_of_iff:
  "classification_of result = ''Non-Compliant'' \<longleftrightarrow>
     map_of result ''non_compliant'' = Some (JStr ''Yes'')"
  by (auto simp: classification_of_def get_item_def split: option.splits)

lemma classification_of_cases:
  "map_of result ''non_compliant'' \<noteq> Some (JStr ''Yes'') \<Longrightarrow>
   classification_of result = ''Compliant''"
  by (auto simp: classification_of_def get_item_def split: option.splits)

subsection \<open>The example batch, evaluated\<close>

lemma strip_A: "strip ''A'' = ''A''" and strip_B: "strip ''B'' = ''B''"
  by (simp_all add: strip_def is_space_def)

lemma split_A: "split CHR '','' ''A'' = [''A'']" and split_B: "split CHR '','' ''B'' = [''B'']"
  by (simp_all add: split_def)

lemma score_A: "calculate_risk_score example_settings [''A''] ''a@x.com'' ''b@x.com'' = 3"
  by (simp add: calculate_risk_score_def external_flag_def example_settings_def round2_def
      address_domain_a_x address_domain_b_x strip_A)

lemma score_B: "calculate_risk_score example_settings [''B''] ''a@x.com'' ''b@x.com'' = 9"
  by (simp add: calculate_risk_score_def external_flag_def example_settings_def round2_def
      address_domain_a_x address_domain_b_x strip_B)



lemma example_email_0:
  "classify_email example_settings (no_documents 0) (example_chain 0) (example_row b) =
     Inr \<lparr>From = ''a@x.com'', To = ''b@x.com'', Subject = ''s'', Body = b,
          Classification = ''Non-Compliant'', Category = ''A'', Risk_Score = 3,
          Reason = JStr [], Evidence = JStr [], Confidence_Score = JStr [], idx = None\<rparr>"
  by (simp add: classify_email_def no_documents_def example_chain_def verdict_def example_row_def
      normalize_category_def get_item_def classification_of_def evidence_of_def
      split_A strip_A score_A)

lemma example_email_1:
  "classify_email example_settings (no_documents 1) (example_chain 1) (example_row b) =
     Inr \<lparr>From = ''a@x.com'', To = ''b@x.com'', Subject = ''s'', Body = b,
          Classification = ''Non-Compliant'', Category = ''B'', Risk_Score = 9,
          Reason = JStr [], Evidence = JStr [], Confidence_Score = JStr [], idx = None\<rparr>"
  by (simp add: classify_email_def no_documents_def example_chain_def verdict_def example_row_def
      normalize_category_def get_item_def classification_of_def evidence_of_def
      split_B strip_B score_B)

lemma example_email_2:
  "classify_email example_settings (no_documents 2) (example_chain 2) (example_row b) =
     Inl (ExternalError ''MalformedVerdict'')"
  by (simp add: classify_email_def no_documents_def example_chain_def)

lemma example_email_3:
  "classify_email example_settings (no_documents 3) (example_chain 3) (example_row b) =
     Inr \<lparr>From = ''a@x.com'', To = ''b@x.com'', Subject = ''s'', Body = b,
          Classification = ''Compliant'', Category = ''B'', Risk_Score = 9,
          Reason = JStr [], Evidence = JStr [], Confidence_Score = JStr [], idx = None\<rparr>"
  by (simp add: classify_email_def no_documents_def example_chain_def verdict_def example_row_def
      normalize_category_def get_item_def classification_of_def evidence_of_def
      split_B strip_B score_B)

lemma example_email_4:
  "classify_email example_settings (no_documents 4) (example_chain 4) (example_row b) =
     Inr \<lparr>From = ''a@x.com'', To = ''b@x.com'', Subject = ''s'', Body = b,
          Classification = ''Non-Compliant'', Category = ''B'', Risk_Score = 9,
          Reason = JStr [], Evidence = JStr [], Confidence_Score = JStr [], idx = None\<rparr>"
  by (simp add: classify_email_def no_documents_def example_chain_def verdict_def example_row_def
      normalize_category_def get_item_def classification_of_def evidence_of_def
      split_B strip_B score_B)


lemma example_batch:
  "map_sum id (map summary)
     (classify_batch example_settings (\<lambda>f. Inr example_rows) no_documents example_chain ()) =
   Inr [(Some 1, ''Non-Compliant'', ''B'', 9), (Some 4, ''Non-Compliant'', ''B'', 9),
        (Some 0, ''Non-Compliant'', ''A'', 3)]"
proof -
  have n: "Suc 0 = 1" "Suc 1 = 2" "Suc 2 = 3" "Suc 3 = 4" by simp_all
  show ?thesis
    unfolding classify_batch_def example_rows_def
    by (simp add: n example_email_0 example_email_1 example_email_2 example_email_3 example_email_4
        sorted_reverse_def summary_def del: One_nat_def)
qed

subsection \<open>Claims\<close>

text \<open>
  C3. When the table can be read, \<open>classify_batch\<close> returns exactly the per-email results
  whose \<open>Classification\<close> is \<open>Non-Compliant\<close> (as a multiset), in descending order of
  risk score; results with the same risk score keep their input order (for every score
  \<open>s\<close>, the results with score \<open>s\<close> appear as in the input); no compliant result is
  returned.
\<close>

theorem c3_batch_filter_and_order:
  assumes "read_csv file_obj = Inr test_df"
  shows "\<exists>out. classify_batch st read_csv retriever chain file_obj = Inr out \<and>
           mset out = mset (filter (\<lambda>r. Classification r = ''Non-Compliant'')
                              (per_email_results st retriever chain 0 test_df)) \<and>
           sorted_wrt (\<lambda>a b. Risk_Score a \<ge> Risk_Score b) out \<and>
           (\<forall>s. filter (\<lambda>r. Risk_Score r = s) out =
                filter (\<lambda>r. Risk_Score r = s)
                  (filter (\<lambda>r. Classification r = ''Non-Compliant'')
                     (per_email_results st retriever chain 0 test_df))) \<and>
           (\<forall>r \<in> set out. Classification r = ''Non-Compliant'')"
proof -
  let ?nc = "filter (\<lambda>r. Classification r = ''Non-Compliant'')
               (per_email_results st retriever chain 0 test_df)"
  have out: "classify_batch st read_csv retriever chain file_obj =
               Inr (sorted_reverse Risk_Score ?nc)"
    using assms by (rule classify_batch_eq)
  have m: "mset (sorted_reverse Risk_Score ?nc) = mset ?nc"
    by (rule sorted_reverse_mset)
  have "set (sorted_reverse Risk_Score ?nc) = set ?nc"
    using m by (rule mset_eq_setD)
  then have nc: "\<forall>r \<in> set (sorted_reverse Risk_Score ?nc). Classification r = ''Non-Compliant''"
    by simp
  from out m nc sorted_reverse_descending [of Risk_Score ?nc]
    sorted_reverse_stable [of Risk_Score _ ?nc]
  show ?thesis by blast
qed

theorem c3_batch_filter_and_order_witness:
  "\<exists>out. classify_batch example_settings (\<lambda>f. Inr example_rows) no_documents example_chain ()
           = Inr out \<and>
         map summary out =
           [(Some 1, ''Non-Compliant'', ''B'', 9), (Some 4, ''Non-Compliant'', ''B'', 9),
            (Some 0, ''Non-Compliant'', ''A'', 3)] \<and>
         sorted_wrt (\<lambda>a b. Risk_Score a \<ge> Risk_Score b) out \<and>
         filter (\<lambda>r. Risk_Score r = 9) out =
           filter (\<lambda>r. Risk_Score r = 9)
             (filter (\<lambda>r. Classification r = ''Non-Compliant'')
                (per_email_results example_settings no_documents example_chain 0 example_rows))"
proof -
  have h: "(\<lambda>f. Inr example_rows) () = (Inr example_rows :: error + email_row list)" by simp
  from c3_batch_filter_and_order [of "\<lambda>f. Inr example_rows" "()" example_rows
      example_settings no_documents example_chain, OF h]
  obtain out where
    o: "classify_batch example_settings (\<lambda>f. Inr example_rows) no_documents example_chain () = Inr out"
    and s: "sorted_wrt (\<lambda>a b. Risk_Score a \<ge> Risk_Score b) out"
    and f: "\<forall>s. filter (\<lambda>r. Risk_Score r = s) out =
                filter (\<lambda>r. Risk_Score r = s)
                  (filter (\<lambda>r. Classification r = ''Non-Compliant'')
                     (per_email_results example_settings no_documents example_chain 0 example_rows))"
    by blast
  from example_batch o have m: "map summary out =
           [(Some 1, ''Non-Compliant'', ''B'', 9), (Some 4, ''Non-Compliant'', ''B'', 9),
            (Some 0, ''Non-Compliant'', ''A'', 3)]" by simp
  from f have f9: "filter (\<lambda>r. Risk_Score r = 9) out =
           filter (\<lambda>r. Risk_Score r = 9)
             (filter (\<lambda>r. Classification r = ''Non-Compliant'')
                (per_email_results example_settings no_documents example_chain 0 example_rows))"
    by (rule spec)
  show ?thesis
  proof (intro exI conjI)
    show "classify_batch example_settings (\<lambda>f. Inr example_rows) no_documents example_chain ()
            = Inr out" by (rule o)
  qed (rule m s f9)+
qed





text \<open>
  C10. A result of \<open>classify_email\<close> is \<open>Non-Compliant\<close> exactly when the response's
  \<open>non_compliant\<close> field is the string \<open>Yes\<close>; with any other value, or none, it is
  \<open>Compliant\<close>. In a batch, a row whose response has another value there has no result
  in the list that \<open>classify_batch\<close> returns.
\<close>

theorem c10_exact_yes:
  "(retriever (Body row) = Inr similar_docs \<and> chain row similar_docs = Inr (JObj result) \<and>
    classify_email st retriever chain row = Inr res \<longrightarrow>
      (Classification res = ''Non-Compliant'' \<longleftrightarrow>
         map_of result ''non_compliant'' = Some (JStr ''Yes'')) \<and>
      (map_of result ''non_compliant'' \<noteq> Some (JStr ''Yes'') \<longrightarrow>
         Classification res = ''Compliant'')) \<and>
   (read_csv file_obj = Inr test_df \<and> i < length test_df \<and>
    retriever_at i (Body (test_df ! i)) = Inr docs \<and>
    chain_at i (test_df ! i) docs = Inr (JObj answer) \<and>
    map_of answer ''non_compliant'' \<noteq> Some (JStr ''Yes'') \<longrightarrow>
      (\<exists>out. classify_batch st read_csv retriever_at chain_at file_obj = Inr out \<and>
             (\<forall>r \<in> set out. idx r \<noteq> Some i)))"
proof (intro conjI impI)
  assume a: "retriever (Body row) = Inr similar_docs \<and>
    chain row similar_docs = Inr (JObj result) \<and>
    classify_email st retriever chain row = Inr res"
  then have c: "Classification res = classification_of result"
    using classify_email_Inr(2) by blast
  then show "Classification res = ''Non-Compliant'' \<longleftrightarrow>
         map_of result ''non_compliant'' = Some (JStr ''Yes'')"
    by (simp add: classification_of_iff)
  assume "map_of result ''non_compliant'' \<noteq> Some (JStr ''Yes'')"
  with c show "Classification res = ''Compliant''"
    by (simp add: classification_of_cases)
next
  assume a: "read_csv file_obj = Inr test_df \<and> i < length test_df \<and>
    retriever_at i (Body (test_df ! i)) = Inr docs \<and>
    chain_at i (test_df ! i) docs = Inr (JObj answer) \<and>
    map_of answer ''non_compliant'' \<noteq> Some (JStr ''Yes'')"
  let ?all = "per_email_results st retriever_at chain_at 0 test_df"
  let ?out = "sorted_reverse Risk_Score (filter (\<lambda>r. Classification r = ''Non-Compliant'') ?all)"
  have out: "classify_batch st read_csv retriever_at chain_at file_obj = Inr ?out"
    using a by (simp add: classify_batch_eq)
  have "mset ?out = mset (filter (\<lambda>r. Classification r = ''Non-Compliant'') ?all)"
    by (rule sorted_reverse_mset)
  then have "set ?out = set (filter (\<lambda>r. Classification r = ''Non-Compliant'') ?all)"
    by (rule mset_eq_setD)
  then have mem: "r \<in> set ?out \<longleftrightarrow> r \<in> set ?all \<and> Classification r = ''Non-Compliant''" for r
    by simp
  have "idx r \<noteq> Some i" if "r \<in> set ?out" for r
  proof
    assume ii: "idx r = Some i"
    from that mem have r: "r \<in> set ?all" and nc: "Classification r = ''Non-Compliant''"
      by simp_all
    from r obtain j res where
      c: "classify_email st (retriever_at j) (chain_at j) (test_df ! j) = Inr res"
      and e: "r = res\<lparr>idx := Some j\<rparr>"
      by (auto simp: per_email_results_mem)
    from e ii have "j = i" by simp
    with c a have "Classification res = classification_of answer"
      using classify_email_Inr(2) [of "retriever_at i" "test_df ! i" docs "chain_at i" answer st res]
      by simp
    with a have "Classification res = ''Compliant''"
      by (simp add: classification_of_cases)
    with e nc show False by simp
  qed
  with out show "\<exists>out. classify_batch st read_csv retriever_at chain_at file_obj = Inr out \<and>
             (\<forall>r \<in> set out. idx r \<noteq> Some i)"
    by blast
qed

theorem c10_exact_yes_witness:
  "example_chain 3 (example_rows ! 3) [] = Inr (verdict (JStr ''yes'') (JStr ''B'')) \<and>
   (\<exists>res. classify_email example_settings (no_documents 3) (example_chain 3) (example_rows ! 3)
            = Inr res \<and> Classification res = ''Compliant'') \<and>
   (\<exists>out. classify_batch example_settings (\<lambda>f. Inr example_rows) no_documents example_chain ()
            = Inr out \<and> Some 3 \<notin> idx ` set out)"
proof -
  let ?answer = "[(''non_compliant'', JStr ''yes''), (''Category'', JStr ''B'')]"
  have r: "no_documents 3 (Body (example_rows ! 3)) = Inr []"
    by (simp add: no_documents_def)
  have ch: "example_chain 3 (example_rows ! 3) [] = Inr (JObj ?answer)"
    by (simp add: example_chain_def verdict_def)
  have e: "classify_email example_settings (no_documents 3) (example_chain 3) (example_rows ! 3)
     = Inr \<lparr>From = ''a@x.com'', To = ''b@x.com'', Subject = ''s'', Body = ''m3'',
          Classification = ''Compliant'', Category = ''B'', Risk_Score = 9,
          Reason = JStr [], Evidence = JStr [], Confidence_Score = JStr [], idx = None\<rparr>"
    by (simp add: example_rows_def example_email_3)
  have n: "map_of ?answer ''non_compliant'' \<noteq> Some (JStr ''Yes'')" by simp
  have h: "(\<lambda>f. Inr example_rows) () = (Inr example_rows :: error + email_row list)" by simp
  have l: "3 < length example_rows" by (simp add: example_rows_def)
  from c10_exact_yes [where read_csv = "\<lambda>f. Inr example_rows" and file_obj = "()"
      and test_df = example_rows and i = 3 and retriever_at = no_documents and docs = "[]"
      and chain_at = example_chain and answer = ?answer and st = example_settings] h l r ch n
  obtain out where
    o: "classify_batch example_settings (\<lambda>f. Inr example_rows) no_documents example_chain () = Inr out"
    and x: "\<forall>r \<in> set out. idx r \<noteq> Some 3"
    by blast
  from x have i: "Some 3 \<notin> idx ` set out" by force
  have c: "example_chain 3 (example_rows ! 3) [] = Inr (verdict (JStr ''yes'') (JStr ''B''))"
    by (simp add: example_chain_def)
  from e have e': "\<exists>res. classify_email example_settings (no_documents 3) (example_chain 3)
      (example_rows ! 3) = Inr res \<and> Classification res = ''Compliant''"
    by simp
  from o i have o': "\<exists>out. classify_batch example_settings (\<lambda>f. Inr example_rows) no_documents
      example_chain () = Inr out \<and> Some 3 \<notin> idx ` set out"
    by (intro exI conjI)
  from c e' o' show ?thesis by (intro conjI)
qed




end
